theory Spec2Isabelle
  imports Complex_Main
begin

section \<open>Residual-trend (RESTREND) analysis of NDVI: \<open>restrend_pointwise/src/main.py\<close>\<close>

text \<open>
  The script builds Earth Engine images, which are evaluated independently at every pixel.
  The embedding follows one pixel: an image band is a \<open>pixel\<close>, the value at that pixel or
  \<open>None\<close> where the image is masked (invalid) there. Values are real numbers: the
  arithmetic of the script is read as exact arithmetic.
\<close>

type_synonym pixel = "real option"

text \<open>
  The failures: \<open>IndexError\<close> and \<open>AttributeError\<close> are raised by the Python of the script,
  \<open>KeyError\<close> by the geometry constructors of the library when they are given no
  coordinates, \<open>EEException\<close> by the library when an image is asked for a band it does not
  have; \<open>UnsupportedPeriodError\<close> and \<open>InsufficientDataError\<close> are the spec's names for a
  lookup outside the significance table and for a year without a source layer.
\<close>

datatype error =
  UnsupportedPeriodError | InsufficientDataError | EEException | IndexError | AttributeError
  | KeyError

subsection \<open>The significance table (lines 210-215)\<close>

definition period :: "int \<Rightarrow> int \<Rightarrow> int" where
  "period year_start year_end = year_end - year_start + 1"

definition coefficients :: "int list" where
  "coefficients = [4, 6, 9, 11, 14, 16, 19, 21, 24, 26, 31, 33, 36,
                   40, 43, 47, 50, 54, 59, 63, 66, 70, 75, 79, 84,
                   88, 93, 97, 102, 106, 111, 115, 120, 126, 131,
                   137, 142]"

text \<open>
  Modelled from the spec: \<open>ee.Array.get\<close> belongs to the Earth Engine library, which is not
  in the source. The spec lets a lookup outside the table fail with
  \<open>UnsupportedPeriodError\<close>; a position inside the array yields the element there.
\<close>

definition array_get :: "'a list \<Rightarrow> int \<Rightarrow> error + 'a" where
  "array_get xs i =
     (if 0 \<le> i \<and> i < int (length xs) then Inr (xs ! nat i) else Inl UnsupportedPeriodError)"

definition kendall :: "int \<Rightarrow> int \<Rightarrow> error + int" where
  "kendall year_start year_end = array_get coefficients (period year_start year_end - 4)"

text \<open>The lookup as a function of the sample count alone.\<close>

definition critical_value :: "int \<Rightarrow> error + int" where
  "critical_value p = array_get coefficients (p - 4)"

subsection \<open>Earth Engine operations at one pixel\<close>

text \<open>
  The operations of the Earth Engine library that the script calls, read at one pixel as the
  library documents them: a binary operation is defined where both operands are, a reducer
  over a collection skips the masked inputs and is masked where no input is valid.
\<close>

definition img_lt :: "pixel \<Rightarrow> pixel \<Rightarrow> pixel" where
  "img_lt a b = (case (a, b) of (Some x, Some y) \<Rightarrow> Some (if x < y then 1 else 0) | _ \<Rightarrow> None)"

definition img_gt :: "pixel \<Rightarrow> pixel \<Rightarrow> pixel" where
  "img_gt a b = (case (a, b) of (Some x, Some y) \<Rightarrow> Some (if x > y then 1 else 0) | _ \<Rightarrow> None)"

definition img_lte :: "pixel \<Rightarrow> pixel \<Rightarrow> pixel" where
  "img_lte a b = (case (a, b) of (Some x, Some y) \<Rightarrow> Some (if x \<le> y then 1 else 0) | _ \<Rightarrow> None)"

definition img_add :: "pixel \<Rightarrow> pixel \<Rightarrow> pixel" where
  "img_add a b = (case (a, b) of (Some x, Some y) \<Rightarrow> Some (x + y) | _ \<Rightarrow> None)"

definition img_subtract :: "pixel \<Rightarrow> pixel \<Rightarrow> pixel" where
  "img_subtract a b = (case (a, b) of (Some x, Some y) \<Rightarrow> Some (x - y) | _ \<Rightarrow> None)"

definition img_multiply :: "pixel \<Rightarrow> pixel \<Rightarrow> pixel" where
  "img_multiply a b = (case (a, b) of (Some x, Some y) \<Rightarrow> Some (x * y) | _ \<Rightarrow> None)"

definition img_divide :: "pixel \<Rightarrow> pixel \<Rightarrow> pixel" where
  "img_divide a b = (case (a, b) of (Some x, Some y) \<Rightarrow> Some (x / y) | _ \<Rightarrow> None)"

definition img_abs :: "pixel \<Rightarrow> pixel" where
  "img_abs a = map_option abs a"

definition img_eq :: "pixel \<Rightarrow> pixel \<Rightarrow> pixel" where
  "img_eq a b = (case (a, b) of (Some x, Some y) \<Rightarrow> Some (if x = y then 1 else 0) | _ \<Rightarrow> None)"

text \<open>
  \<open>Image.where(test, value)\<close>: where the test is non-zero the value replaces the input;
  where the test or the value is masked the input is kept; a masked input stays masked.
\<close>

definition img_where :: "pixel \<Rightarrow> pixel \<Rightarrow> pixel \<Rightarrow> pixel" where
  "img_where input test v =
     (case input of
        None \<Rightarrow> None
      | Some x \<Rightarrow>
          (case (test, v) of
             (Some t, Some y) \<Rightarrow> if t \<noteq> 0 then Some y else Some x
           | _ \<Rightarrow> Some x))"

text \<open>\<open>Image.unmask(value)\<close>: the value replaces the masked pixels.\<close>

definition img_unmask :: "pixel \<Rightarrow> real \<Rightarrow> pixel" where
  "img_unmask a v = (case a of None \<Rightarrow> Some v | Some x \<Rightarrow> Some x)"

text \<open>
  \<open>Image.updateMask(mask)\<close>: the pixel stays valid where it was valid and the new mask is
  valid and not zero.
\<close>

definition img_updateMask :: "pixel \<Rightarrow> pixel \<Rightarrow> pixel" where
  "img_updateMask a m =
     (case (a, m) of (Some x, Some mv) \<Rightarrow> if mv \<noteq> 0 then Some x else None | _ \<Rightarrow> None)"

text \<open>The valid values of a collection at the pixel, in the collection's order.\<close>

definition valid_values :: "pixel list \<Rightarrow> real list" where
  "valid_values ps = concat (map (\<lambda>p. case p of None \<Rightarrow> [] | Some v \<Rightarrow> [v]) ps)"

definition collection_sum :: "pixel list \<Rightarrow> pixel" where
  "collection_sum ps =
     (let vs = valid_values ps in if vs = [] then None else Some (sum_list vs))"

subsection \<open>\<open>mann_kendall_stat\<close> (lines 43-70)\<close>

text \<open>
  The two nested loops, \<open>for k in range(0, NumberOfItems-2)\<close> and
  \<open>for l in range(k+1, NumberOfItems-1)\<close>, as the list of the index pairs they visit, in
  order. A Python range whose end is not above its start is empty, as \<open>[i..<j]\<close> is.
\<close>

definition mk_loop_pairs :: "nat \<Rightarrow> (nat \<times> nat) list" where
  "mk_loop_pairs NumberOfItems =
     concat (map (\<lambda>k. map (\<lambda>l. (k, l)) [k + 1 ..< NumberOfItems - 1])
                 [0 ..< NumberOfItems - 2])"

definition mann_kendall_stat :: "pixel list \<Rightarrow> pixel" where
  "mann_kendall_stat imageCollection =
     (let TimeSeriesList = take 50 imageCollection;
          NumberOfItems = length TimeSeriesList;
          ConcordantArray = map (\<lambda>(k, l). img_lt (TimeSeriesList ! k) (TimeSeriesList ! l))
                                (mk_loop_pairs NumberOfItems);
          DiscordantArray = map (\<lambda>(k, l). img_gt (TimeSeriesList ! k) (TimeSeriesList ! l))
                                (mk_loop_pairs NumberOfItems);
          ConcordantSum = collection_sum ConcordantArray;
          DiscordantSum = collection_sum DiscordantArray
      in img_subtract ConcordantSum DiscordantSum)"

text \<open>
  The statistic as the spec words it (section 4.3), to compare with the one of the source:
  every pair \<open>i < j\<close> of the \<open>n\<close> time indices, one concordant for \<open>value[i] < value[j]\<close>,
  one discordant for \<open>value[i] > value[j]\<close>, a pair with a masked operand counting for
  neither; S is the difference of the two counts.
\<close>

definition all_pairs :: "nat \<Rightarrow> (nat \<times> nat) list" where
  "all_pairs n = concat (map (\<lambda>i. map (\<lambda>j. (i, j)) [i + 1 ..< n]) [0 ..< n])"

definition concordant :: "pixel list \<Rightarrow> nat \<times> nat \<Rightarrow> bool" where
  "concordant vs = (\<lambda>(i, j). case (vs ! i, vs ! j) of (Some x, Some y) \<Rightarrow> x < y | _ \<Rightarrow> False)"

definition discordant :: "pixel list \<Rightarrow> nat \<times> nat \<Rightarrow> bool" where
  "discordant vs = (\<lambda>(i, j). case (vs ! i, vs ! j) of (Some x, Some y) \<Rightarrow> x > y | _ \<Rightarrow> False)"

text \<open>The pairs that count: both layers are valid at the pixel.\<close>

definition both_valid :: "pixel list \<Rightarrow> nat \<times> nat \<Rightarrow> bool" where
  "both_valid vs = (\<lambda>(i, j). vs ! i \<noteq> None \<and> vs ! j \<noteq> None)"

definition spec_S :: "pixel list \<Rightarrow> int" where
  "spec_S vs = int (length (filter (concordant vs) (all_pairs (length vs))))
             - int (length (filter (discordant vs) (all_pairs (length vs))))"

subsection \<open>The area of interest: \<open>get_region\<close>, \<open>get_coords\<close>, \<open>get_type\<close> (lines 13-41)\<close>

text \<open>
  The GeoJSON object is the dictionary \<open>json.loads\<close> returns; \<open>d.get(key)\<close> is \<open>None\<close> for a
  key that is absent. The coordinates are kept abstract (\<open>'c\<close>). Indexing an empty list of
  features raises \<open>IndexError\<close>; \<open>.get\<close> or \<open>.lower\<close> on \<open>None\<close> raises \<open>AttributeError\<close>;
  \<open>ee.Geometry.Polygon\<close> and \<open>ee.Geometry.MultiPolygon\<close> raise \<open>KeyError\<close> when the coordinates
  they are given are \<open>None\<close>.
\<close>

record 'c geometry_obj =
  g_coordinates :: "'c option"
  g_type :: "string option"

record 'c feature_obj =
  f_geometry :: "'c geometry_obj option"

record 'c geojson_obj =
  features :: "'c feature_obj list option"
  geometry :: "'c geometry_obj option"
  coordinates :: "'c option"
  type_key :: "string option"

datatype 'c region = MultiPolygon 'c | Polygon 'c

definition get_coords :: "'c geojson_obj \<Rightarrow> error + 'c option" where
  "get_coords geojson =
     (case features geojson of
        Some fs \<Rightarrow>
          (case fs of
             [] \<Rightarrow> Inl IndexError
           | f # _ \<Rightarrow>
               (case f_geometry f of
                  None \<Rightarrow> Inl AttributeError
                | Some g \<Rightarrow> Inr (g_coordinates g)))
      | None \<Rightarrow>
          (case geometry geojson of
             Some g \<Rightarrow> Inr (g_coordinates g)
           | None \<Rightarrow> Inr (coordinates geojson)))"

definition get_type :: "'c geojson_obj \<Rightarrow> error + string option" where
  "get_type geojson =
     (case features geojson of
        Some fs \<Rightarrow>
          (case fs of
             [] \<Rightarrow> Inl IndexError
           | f # _ \<Rightarrow>
               (case f_geometry f of
                  None \<Rightarrow> Inl AttributeError
                | Some g \<Rightarrow> Inr (g_type g)))
      | None \<Rightarrow>
          (case geometry geojson of
             Some g \<Rightarrow> Inr (g_type g)
           | None \<Rightarrow> Inr (type_key geojson)))"

text \<open>\<open>str.lower\<close>, on the ASCII letters.\<close>

definition lower_char :: "char \<Rightarrow> char" where
  "lower_char c =
     (let n = (of_char c :: nat) in if 65 \<le> n \<and> n \<le> 90 then char_of (n + 32) else c)"

definition lower :: "string \<Rightarrow> string" where
  "lower s = map lower_char s"

definition get_region :: "'c geojson_obj \<Rightarrow> error + 'c region" where
  "get_region geom =
     (case get_coords geom of
        Inl e \<Rightarrow> Inl e
      | Inr poly \<Rightarrow>
          (case get_type geom of
             Inl e \<Rightarrow> Inl e
           | Inr None \<Rightarrow> Inl AttributeError
           | Inr (Some ptype) \<Rightarrow>
               if lower ptype = ''multipolygon''
               then (case poly of None \<Rightarrow> Inl KeyError | Some c \<Rightarrow> Inr (MultiPolygon c))
               else (case poly of None \<Rightarrow> Inl KeyError | Some c \<Rightarrow> Inr (Polygon c))))"

subsection \<open>The quality filter \<open>qa_filter\<close> (lines 124-132)\<close>

text \<open>
  An image of the MODIS collection at the pixel: its acquisition date (year, month, day) and
  the two bands the script reads.
\<close>

type_synonym date = "int \<times> nat \<times> nat"

record modis_img =
  time_start :: date
  SummaryQA :: pixel
  NDVI :: pixel

definition qa_filter :: "modis_img \<Rightarrow> pixel" where
  "qa_filter img =
     (let mask = SummaryQA img;
          mask = img_where mask (img_eq (SummaryQA img) (Some (- 1))) (Some 0);
          mask = img_where mask (img_eq (SummaryQA img) (Some 0)) (Some 1);
          mask = img_where mask (img_eq (SummaryQA img) (Some 1)) (Some 1);
          mask = img_where mask (img_eq (SummaryQA img) (Some 2)) (Some 0);
          mask = img_where mask (img_eq (SummaryQA img) (Some 3)) (Some 0);
          masked = img_updateMask (NDVI img) mask
      in masked)"

text \<open>\<open>modis_16d_o.map(qa_filter)\<close> (line 183); an image keeps its date.\<close>

definition map_qa_filter :: "modis_img list \<Rightarrow> (date \<times> pixel) list" where
  "map_qa_filter modis_16d_o = map (\<lambda>img. (time_start img, qa_filter img)) modis_16d_o"

subsection \<open>Reducers\<close>

definition collection_mean :: "pixel list \<Rightarrow> pixel" where
  "collection_mean ps =
     (let vs = valid_values ps in if vs = [] then None else Some (sum_list vs / real (length vs)))"

definition collection_median :: "pixel list \<Rightarrow> pixel" where
  "collection_median ps =
     (let vs = sort (valid_values ps); n = length vs in
      if n = 0 then None
      else if odd n then Some (vs ! (n div 2))
      else Some ((vs ! (n div 2 - 1) + vs ! (n div 2)) / 2))"

record regression =
  scale :: pixel
  offset :: pixel

text \<open>
  Modelled from the spec: \<open>ee.Reducer.linearFit\<close> belongs to the Earth Engine library, which
  is not in the source. Section 4.2 of the spec: ordinary least squares over the samples
  where both variables are valid, slope = Cov(x,y)/Var(x), intercept = mean(y) - slope *
  mean(x); masked with fewer than 2 valid samples or with zero variance of x.
\<close>

definition valid_pairs :: "(pixel \<times> pixel) list \<Rightarrow> (real \<times> real) list" where
  "valid_pairs ps =
     concat (map (\<lambda>p. case p of (Some x, Some y) \<Rightarrow> [(x, y)] | _ \<Rightarrow> []) ps)"

definition linearFit :: "(pixel \<times> pixel) list \<Rightarrow> regression" where
  "linearFit ps =
     (let vs = valid_pairs ps;
          n = real (length vs);
          mx = sum_list (map fst vs) / n;
          my = sum_list (map snd vs) / n;
          sxx = sum_list (map (\<lambda>(x, y). (x - mx) * (x - mx)) vs);
          sxy = sum_list (map (\<lambda>(x, y). (x - mx) * (y - my)) vs)
      in if length vs < 2 \<or> sxx = 0 then \<lparr>scale = None, offset = None\<rparr>
         else \<lparr>scale = Some (sxy / sxx), offset = Some (my - (sxy / sxx) * mx)\<rparr>)"

subsection \<open>The stages of \<open>restrend_pointwise\<close> (lines 101-233)\<close>

text \<open>
  An image of an annual collection at the pixel is its \<open>year\<close> property with the value of
  its band; the images of \<open>coll_1yr_o\<close> carry the two bands \<open>ndvi\<close> and \<open>clim\<close>. The
  constant band \<open>year\<close> that the script adds to an image is written out only where it is
  read, in the residual images. The nested functions of the script read variables of the
  enclosing function; here they take them as arguments.
\<close>

type_synonym annual_img = "int \<times> pixel"

record stack_img =
  year :: int
  ndvi :: pixel
  clim :: pixel

text \<open>\<open>filterDate(start, end)\<close> keeps the images from \<open>start\<close> on and before \<open>end\<close>.\<close>

fun date_le :: "date \<Rightarrow> date \<Rightarrow> bool" where
  "date_le (y1, m1, d1) (y2, m2, d2) =
     (y1 < y2 \<or> (y1 = y2 \<and> (m1 < m2 \<or> (m1 = m2 \<and> d1 \<le> d2))))"

definition filterDate :: "date \<Rightarrow> date \<Rightarrow> (date \<times> pixel) list \<Rightarrow> (date \<times> pixel) list" where
  "filterDate start end_date coll =
     filter (\<lambda>(t, v). date_le start t \<and> \<not> date_le end_date t) coll"

text \<open>
  Modelled from the spec: \<open>reduce(ee.Reducer.mean())\<close> over the images selected for a year
  belongs to the Earth Engine library, which is not in the source. Section 4.1 of the spec:
  the reduction is the arithmetic mean over the valid cells, a cell invalid in all inputs
  stays invalid, and it fails with \<open>InsufficientDataError\<close> when the year has zero
  contributing layers.
\<close>

definition reduce_mean :: "pixel list \<Rightarrow> error + pixel" where
  "reduce_mean selected =
     (if selected = [] then Inl InsufficientDataError else Inr (collection_mean selected))"

text \<open>
  The loop of \<open>int_16d_1yr_o\<close> over the years still to do, with the list \<open>img_coll\<close> built so
  far; the first year that fails ends it.
\<close>

fun int_16d_1yr_o_loop ::
  "(date \<times> pixel) list \<Rightarrow> int list \<Rightarrow> annual_img list \<Rightarrow> error + annual_img list" where
  "int_16d_1yr_o_loop ndvi_coll [] img_coll = Inr img_coll"
| "int_16d_1yr_o_loop ndvi_coll (k # ks) img_coll =
     (case reduce_mean (map snd (filterDate (k, 1, 1) (k, 12, 31) ndvi_coll)) of
        Inl e \<Rightarrow> Inl e
      | Inr m \<Rightarrow>
          (let ndvi_img = img_multiply m (Some 0.0001);
               img = (k, ndvi_img)
           in int_16d_1yr_o_loop ndvi_coll ks (img_coll @ [img])))"

definition int_16d_1yr_o ::
  "int \<Rightarrow> int \<Rightarrow> (date \<times> pixel) list \<Rightarrow> error + annual_img list" where
  "int_16d_1yr_o year_start year_end ndvi_coll =
     int_16d_1yr_o_loop ndvi_coll [year_start .. year_end - 1] []"

text \<open>
  The climate image is a stack of bands, 24 to the year. Selecting a band that the image
  does not have is an error of the library; the script does not check the number of bands.
\<close>

definition int_15d_1yr_clim :: "pixel list \<Rightarrow> error + annual_img list" where
  "int_15d_1yr_clim img_stack =
     (if length img_stack < 33 * 24 then Inl EEException
      else Inr (map (\<lambda>k. (1981 + int k,
                          collection_mean (take 24 (drop ((k - 1) * 24) img_stack))))
                    [1 ..< 34]))"

definition stack :: "annual_img list \<Rightarrow> annual_img list \<Rightarrow> int \<Rightarrow> int \<Rightarrow> stack_img list" where
  "stack ndvi_1yr_o clim_1yr_o year_start year_end =
     map (\<lambda>k. \<lparr>year = k,
               ndvi = collection_median (map snd (filter (\<lambda>i. fst i = k) ndvi_1yr_o)),
               clim = collection_median (map snd (filter (\<lambda>i. fst i = k) clim_1yr_o))\<rparr>)
         [year_start .. year_end - 1]"

definition ndvi_clim_p :: "regression \<Rightarrow> annual_img \<Rightarrow> annual_img list \<Rightarrow> annual_img list" where
  "ndvi_clim_p lf_clim_ndvi img list =
     (let ndvi = (fst img,
                  img_add (offset lf_clim_ndvi) (img_multiply (scale lf_clim_ndvi) (snd img)))
      in list @ [ndvi])"

text \<open>\<open>collection.iterate(f, first)\<close> folds \<open>f\<close> over the images, from \<open>first\<close>.\<close>

definition iterate :: "'a list \<Rightarrow> ('a \<Rightarrow> 'b \<Rightarrow> 'b) \<Rightarrow> 'b \<Rightarrow> 'b" where
  "iterate coll f first = foldl (\<lambda>acc img. f img acc) first coll"

text \<open>A residual image: its band \<open>year\<close> and its band \<open>ndvi_res\<close>.\<close>

definition ndvi_clim_r_img :: "stack_img list \<Rightarrow> annual_img list \<Rightarrow> int \<Rightarrow> pixel \<times> pixel" where
  "ndvi_clim_r_img coll_1yr_o ndvi_1yr_p y =
     (let ndvi_o = collection_median (map ndvi (filter (\<lambda>i. year i = y) coll_1yr_o));
          ndvi_p = collection_median (map snd (filter (\<lambda>i. fst i = y) ndvi_1yr_p));
          ndvi_r = (Some (real_of_int y), img_subtract ndvi_o ndvi_p)
      in ndvi_r)"

definition ndvi_clim_r_coll ::
  "stack_img list \<Rightarrow> annual_img list \<Rightarrow> int \<Rightarrow> int \<Rightarrow> (pixel \<times> pixel) list" where
  "ndvi_clim_r_coll coll_1yr_o ndvi_1yr_p year_start year_end =
     map (\<lambda>i. ndvi_clim_r_img coll_1yr_o ndvi_1yr_p i) [year_start .. year_end - 1]"

text \<open>The image of the export (line 220), from the three values it reads.\<close>

definition export_image :: "pixel \<Rightarrow> pixel \<Rightarrow> int \<Rightarrow> pixel" where
  "export_image lf_prest_scale mk_trend kendall_value =
     img_unmask
       (img_where
          (img_where lf_prest_scale
             (img_lte (img_abs mk_trend) (Some (real_of_int kendall_value))) (Some (- 99999)))
          (img_lte (img_abs lf_prest_scale) (Some 0.000001)) (Some (- 99999)))
       (- 99999)"

record 'c export =
  export_img :: pixel
  export_region :: "'c option"

text \<open>
  \<open>restrend_pointwise\<close> at one pixel. The MODIS collection and the climate image, which the
  script loads from the Earth Engine catalogue, are arguments. The result is the image and
  the region of the export task; the other entries of \<open>export\<close> are constants and the
  \<open>EXECUTION_ID\<close>, which names the output.
\<close>

definition lf_clim_ndvi_of :: "stack_img list \<Rightarrow> regression" where
  "lf_clim_ndvi_of coll_1yr_o = linearFit (map (\<lambda>i. (clim i, ndvi i)) coll_1yr_o)"

definition ndvi_1yr_p_of :: "stack_img list \<Rightarrow> annual_img list" where
  "ndvi_1yr_p_of coll_1yr_o =
     iterate (map (\<lambda>i. (year i, clim i)) coll_1yr_o)
             (ndvi_clim_p (lf_clim_ndvi_of coll_1yr_o)) []"

definition restrend_pointwise ::
  "int \<Rightarrow> int \<Rightarrow> 'c geojson_obj \<Rightarrow> modis_img list \<Rightarrow> pixel list \<Rightarrow> error + 'c export" where
  "restrend_pointwise year_start year_end geojson modis_16d_o clim_15d_o =
     (case get_coords geojson of
        Inl e \<Rightarrow> Inl e
      | Inr region \<Rightarrow>
          (let modis_16d_o = map_qa_filter modis_16d_o
           in case int_16d_1yr_o year_start year_end modis_16d_o of
                Inl e \<Rightarrow> Inl e
              | Inr ndvi_1yr_o \<Rightarrow>
                  (case int_15d_1yr_clim (map (\<lambda>b. img_divide b (Some 10000)) clim_15d_o) of
                     Inl e \<Rightarrow> Inl e
                   | Inr clim_1yr_o \<Rightarrow>
                  (let coll_1yr_o = stack ndvi_1yr_o clim_1yr_o year_start year_end;
                       ndvi_1yr_p = ndvi_1yr_p_of coll_1yr_o;
                       ndvi_1yr_r = ndvi_clim_r_coll coll_1yr_o ndvi_1yr_p year_start year_end;
                       lf_prest = linearFit ndvi_1yr_r;
                       mk_prest = mann_kendall_stat (map snd ndvi_1yr_r)
                   in case kendall year_start year_end of
                        Inl e \<Rightarrow> Inl e
                      | Inr kendall_value \<Rightarrow>
                          (let mk_trend = mann_kendall_stat (map snd ndvi_1yr_o)
                           in Inr \<lparr>export_img =
                                     export_image (scale lf_prest) mk_trend kendall_value,
                                   export_region = region\<rparr>)))))"

text \<open>The same function with the statement that computes \<open>mk_prest\<close> (line 207) removed.\<close>

definition restrend_pointwise_without_mk_prest ::
  "int \<Rightarrow> int \<Rightarrow> 'c geojson_obj \<Rightarrow> modis_img list \<Rightarrow> pixel list \<Rightarrow> error + 'c export" where
  "restrend_pointwise_without_mk_prest year_start year_end geojson modis_16d_o clim_15d_o =
     (case get_coords geojson of
        Inl e \<Rightarrow> Inl e
      | Inr region \<Rightarrow>
          (let modis_16d_o = map_qa_filter modis_16d_o
           in case int_16d_1yr_o year_start year_end modis_16d_o of
                Inl e \<Rightarrow> Inl e
              | Inr ndvi_1yr_o \<Rightarrow>
                  (case int_15d_1yr_clim (map (\<lambda>b. img_divide b (Some 10000)) clim_15d_o) of
                     Inl e \<Rightarrow> Inl e
                   | Inr clim_1yr_o \<Rightarrow>
                  (let coll_1yr_o = stack ndvi_1yr_o clim_1yr_o year_start year_end;
                       ndvi_1yr_p = ndvi_1yr_p_of coll_1yr_o;
                       ndvi_1yr_r = ndvi_clim_r_coll coll_1yr_o ndvi_1yr_p year_start year_end;
                       lf_prest = linearFit ndvi_1yr_r
                   in case kendall year_start year_end of
                        Inl e \<Rightarrow> Inl e
                      | Inr kendall_value \<Rightarrow>
                          (let mk_trend = mann_kendall_stat (map snd ndvi_1yr_o)
                           in Inr \<lparr>export_img =
                                     export_image (scale lf_prest) mk_trend kendall_value,
                                   export_region = region\<rparr>)))))"

subsection \<open>A sample run\<close>

text \<open>
  Inputs for the years 2003 to 2012 at one pixel: one MODIS image a year, the one of 2005
  cloudy (quality flag 3), and a climate image whose 24 bands of a year share one value.
  The values computed from them by the stages are named, to be checked stage by stage.
\<close>

definition constant_years :: "real list \<Rightarrow> pixel list" where
  "constant_years vs = concat (map (\<lambda>v. replicate 24 (Some v)) vs)"

definition sample_geojson :: "nat geojson_obj" where
  "sample_geojson =
     \<lparr>features = None, geometry = None, coordinates = Some 0, type_key = Some ''Polygon''\<rparr>"

definition sample_modis :: "modis_img list" where
  "sample_modis =
     [\<lparr>time_start = (2003, 1, 1), SummaryQA = Some 0, NDVI = Some 1000\<rparr>,
      \<lparr>time_start = (2004, 1, 1), SummaryQA = Some 0, NDVI = Some 2000\<rparr>,
      \<lparr>time_start = (2005, 1, 1), SummaryQA = Some 3, NDVI = Some 3000\<rparr>,
      \<lparr>time_start = (2006, 1, 1), SummaryQA = Some 0, NDVI = Some 4000\<rparr>,
      \<lparr>time_start = (2007, 1, 1), SummaryQA = Some 0, NDVI = Some 5000\<rparr>,
      \<lparr>time_start = (2008, 1, 1), SummaryQA = Some 0, NDVI = Some 6000\<rparr>,
      \<lparr>time_start = (2009, 1, 1), SummaryQA = Some 0, NDVI = Some 7000\<rparr>,
      \<lparr>time_start = (2010, 1, 1), SummaryQA = Some 0, NDVI = Some 8000\<rparr>,
      \<lparr>time_start = (2011, 1, 1), SummaryQA = Some 0, NDVI = Some 9000\<rparr>]"

text \<open>The same collection without any image of 2005.\<close>

definition sample_modis_gap :: "modis_img list" where
  "sample_modis_gap =
     [\<lparr>time_start = (2003, 1, 1), SummaryQA = Some 0, NDVI = Some 1000\<rparr>,
      \<lparr>time_start = (2004, 1, 1), SummaryQA = Some 0, NDVI = Some 2000\<rparr>,
      \<lparr>time_start = (2006, 1, 1), SummaryQA = Some 0, NDVI = Some 4000\<rparr>,
      \<lparr>time_start = (2007, 1, 1), SummaryQA = Some 0, NDVI = Some 5000\<rparr>,
      \<lparr>time_start = (2008, 1, 1), SummaryQA = Some 0, NDVI = Some 6000\<rparr>,
      \<lparr>time_start = (2009, 1, 1), SummaryQA = Some 0, NDVI = Some 7000\<rparr>,
      \<lparr>time_start = (2010, 1, 1), SummaryQA = Some 0, NDVI = Some 8000\<rparr>,
      \<lparr>time_start = (2011, 1, 1), SummaryQA = Some 0, NDVI = Some 9000\<rparr>]"

definition sample_clim_years :: "real list" where
  "sample_clim_years =
     [10000, 10000, 10000, 10000, 10000, 10000, 10000, 10000, 10000, 10000, 10000,
      10000, 10000, 10000, 10000, 10000, 10000, 10000, 10000, 10000, 10000,
      10000, 30000, 20000, 20000, 50000, 40000, 40000, 70000, 60000,
      10000, 10000, 10000]"

definition sample_clim_1yr_o :: "annual_img list" where
  "sample_clim_1yr_o =
     [(1982, Some 1), (1983, Some 1), (1984, Some 1), (1985, Some 1), (1986, Some 1),
      (1987, Some 1), (1988, Some 1), (1989, Some 1), (1990, Some 1), (1991, Some 1),
      (1992, Some 1), (1993, Some 1), (1994, Some 1), (1995, Some 1), (1996, Some 1),
      (1997, Some 1), (1998, Some 1), (1999, Some 1), (2000, Some 1), (2001, Some 1),
      (2002, Some 1), (2003, Some 1), (2004, Some 3), (2005, Some 2), (2006, Some 2),
      (2007, Some 5), (2008, Some 4), (2009, Some 4), (2010, Some 7), (2011, Some 6),
      (2012, Some 1), (2013, Some 1), (2014, Some 1)]"

definition sample_ndvi_1yr :: "annual_img list" where
  "sample_ndvi_1yr =
     [(2003, Some (1/10)), (2004, Some (2/10)), (2005, None), (2006, Some (4/10)),
      (2007, Some (5/10)), (2008, Some (6/10)), (2009, Some (7/10)), (2010, Some (8/10)),
      (2011, Some (9/10))]"

definition sample_coll_1yr_o :: "stack_img list" where
  "sample_coll_1yr_o =
     [\<lparr>year = 2003, ndvi = Some (1/10), clim = Some 1\<rparr>,
      \<lparr>year = 2004, ndvi = Some (2/10), clim = Some 3\<rparr>,
      \<lparr>year = 2005, ndvi = None, clim = Some 2\<rparr>,
      \<lparr>year = 2006, ndvi = Some (4/10), clim = Some 2\<rparr>,
      \<lparr>year = 2007, ndvi = Some (5/10), clim = Some 5\<rparr>,
      \<lparr>year = 2008, ndvi = Some (6/10), clim = Some 4\<rparr>,
      \<lparr>year = 2009, ndvi = Some (7/10), clim = Some 4\<rparr>,
      \<lparr>year = 2010, ndvi = Some (8/10), clim = Some 7\<rparr>,
      \<lparr>year = 2011, ndvi = Some (9/10), clim = Some 6\<rparr>]"

definition sample_ndvi_1yr_p :: "annual_img list" where
  "sample_ndvi_1yr_p =
     [(2003, Some (9/56)), (2004, Some (113/280)), (2005, Some (79/280)), (2006, Some (79/280)),
      (2007, Some (181/280)), (2008, Some (21/40)), (2009, Some (21/40)), (2010, Some (249/280)),
      (2011, Some (43/56))]"

definition sample_ndvi_1yr_r :: "(pixel \<times> pixel) list" where
  "sample_ndvi_1yr_r =
     [(Some 2003, Some (- 17/280)), (Some 2004, Some (- 57/280)), (Some 2005, None),
      (Some 2006, Some (33/280)), (Some 2007, Some (- 41/280)), (Some 2008, Some (3/40)),
      (Some 2009, Some (7/40)), (Some 2010, Some (- 5/56)), (Some 2011, Some (37/280))]"

section \<open>Theorems\<close>

lemma length_coefficients: "length coefficients = 37"
  by (simp add: coefficients_def)

lemma kendall_critical_value:
  "kendall year_start year_end = critical_value (period year_start year_end)"
  by (simp add: kendall_def critical_value_def)

text \<open>
  C3, as stated, fails at period 40: the table of the source has 37 entries, so index 36
  (period 40) is inside it and the lookup returns 142 instead of failing.
\<close>

theorem critical_value_40_counterexample:
  "critical_value 40 = Inr 142 \<and> kendall 2000 2039 = Inr 142"
  by (simp add: critical_value_def kendall_def period_def array_get_def coefficients_def)

text \<open>
  C3, amended: the lookup supports exactly the periods 4 through 40, indexed at
  \<open>period - 4\<close>. Inside that range it returns the table entry; at every other period,
  in particular at 3 and at 41, it fails with \<open>UnsupportedPeriodError\<close>.
\<close>

theorem critical_value_supported:
  "critical_value p =
     (if 4 \<le> p \<and> p \<le> 40 then Inr (coefficients ! nat (p - 4)) else Inl UnsupportedPeriodError)"
  by (auto simp add: critical_value_def array_get_def length_coefficients)

theorem critical_value_supported_witness:
  "critical_value 4 = Inr 4 \<and> critical_value 13 = Inr 26 \<and> critical_value 39 = Inr 137
   \<and> critical_value 3 = Inl UnsupportedPeriodError
   \<and> critical_value 41 = Inl UnsupportedPeriodError"
  using critical_value_supported [of 4] critical_value_supported [of 13]
    critical_value_supported [of 39] critical_value_supported [of 3]
    critical_value_supported [of 41]
  by (simp add: coefficients_def)

text \<open>
  C1 (the code departs from the claim): the loops of \<open>mann_kendall_stat\<close> stop one index
  short, \<open>k\<close> below \<open>NumberOfItems - 2\<close> and \<open>l\<close> below \<open>NumberOfItems - 1\<close>, so no pair with the
  last layer is compared. On the three layers 1, 2, 3 the only pair visited is (0, 1) and
  the result is 1, where the three pairs of the claim give S = 3.
\<close>

theorem mann_kendall_stat_skips_last_layer:
  "mk_loop_pairs 3 = [(0, 1)]
   \<and> mann_kendall_stat [Some 1, Some 2, Some 3] = Some 1
   \<and> spec_S [Some 1, Some 2, Some 3] = 3"
  by code_simp

text \<open>
  C5 (the code departs from the claim): on the tie-free series 1, 3, 2 the source returns 1,
  and on the reversed series 2, 3, 1 it returns 1 again, not -1. The statistic over all
  pairs is 1 and -1. The cause is the one of C1: the last layer is never compared, and
  reversal changes which layer is last.
\<close>

theorem mann_kendall_stat_reversal:
  "mann_kendall_stat [Some 1, Some 3, Some 2] = Some 1
   \<and> mann_kendall_stat (rev [Some 1, Some 3, Some 2]) = Some 1
   \<and> spec_S [Some 1, Some 3, Some 2] = 1
   \<and> spec_S (rev [Some 1, Some 3, Some 2]) = - 1"
  by code_simp

text \<open>
  What the source computes instead: the statistic over all but the last of the (at most 50)
  layers, masked where no pair of those layers is valid at the pixel. It is unchanged under
  a strictly increasing relabelling of the values.
\<close>

lemma mk_loop_pairs_all_pairs: "mk_loop_pairs n = all_pairs (n - 1)"
proof (cases "n - 1")
  case 0
  then have "n - 2 = 0" by simp
  with 0 show ?thesis by (simp add: mk_loop_pairs_def all_pairs_def)
next
  case (Suc m)
  then have "n - 2 = m" by simp
  with Suc show ?thesis by (simp add: mk_loop_pairs_def all_pairs_def)
qed

lemma all_pairs_bound: "(i, j) \<in> set (all_pairs n) \<Longrightarrow> i < j \<and> j < n"
  by (auto simp add: all_pairs_def)

lemma valid_values_Cons:
  "valid_values (p # ps) = (case p of None \<Rightarrow> [] | Some v \<Rightarrow> [v]) @ valid_values ps"
  by (simp add: valid_values_def)

lemma img_lt_point:
  "(case img_lt (ts ! k) (ts ! l) of None \<Rightarrow> [] | Some v \<Rightarrow> [v])
     = (if both_valid ts (k, l) then [if concordant ts (k, l) then 1 else 0] else [])"
  by (cases "ts ! k"; cases "ts ! l") (simp_all add: img_lt_def both_valid_def concordant_def)

lemma img_gt_point:
  "(case img_gt (ts ! k) (ts ! l) of None \<Rightarrow> [] | Some v \<Rightarrow> [v])
     = (if both_valid ts (k, l) then [if discordant ts (k, l) then 1 else 0] else [])"
  by (cases "ts ! k"; cases "ts ! l") (simp_all add: img_gt_def both_valid_def discordant_def)

lemma valid_values_lt:
  "valid_values (map (\<lambda>(k, l). img_lt (ts ! k) (ts ! l)) ps)
     = map (\<lambda>p. if concordant ts p then 1 else 0) (filter (both_valid ts) ps)"
proof (induction ps)
  case Nil
  show ?case by (simp add: valid_values_def)
next
  case (Cons p ps)
  obtain k l where p: "p = (k, l)" by (cases p)
  show ?case by (simp add: p Cons valid_values_Cons img_lt_point)
qed

lemma valid_values_gt:
  "valid_values (map (\<lambda>(k, l). img_gt (ts ! k) (ts ! l)) ps)
     = map (\<lambda>p. if discordant ts p then 1 else 0) (filter (both_valid ts) ps)"
proof (induction ps)
  case Nil
  show ?case by (simp add: valid_values_def)
next
  case (Cons p ps)
  obtain k l where p: "p = (k, l)" by (cases p)
  show ?case by (simp add: p Cons valid_values_Cons img_gt_point)
qed

lemma sum_list_indicator:
  "sum_list (map (\<lambda>p. if P p then 1 else 0) ps) = real (length (filter P ps))"
  by (induction ps) simp_all

lemma concordant_both_valid: "(both_valid ts p \<and> concordant ts p) = concordant ts p"
  by (cases p) (auto simp add: concordant_def both_valid_def split: option.splits)

lemma discordant_both_valid: "(both_valid ts p \<and> discordant ts p) = discordant ts p"
  by (cases p) (auto simp add: discordant_def both_valid_def split: option.splits)

lemma collection_sum_lt:
  "collection_sum (map (\<lambda>(k, l). img_lt (ts ! k) (ts ! l)) ps)
     = (if filter (both_valid ts) ps = [] then None
        else Some (real (length (filter (concordant ts) ps))))"
  by (simp add: collection_sum_def valid_values_lt sum_list_indicator concordant_both_valid)

lemma collection_sum_gt:
  "collection_sum (map (\<lambda>(k, l). img_gt (ts ! k) (ts ! l)) ps)
     = (if filter (both_valid ts) ps = [] then None
        else Some (real (length (filter (discordant ts) ps))))"
  by (simp add: collection_sum_def valid_values_gt sum_list_indicator discordant_both_valid)

lemma concordant_butlast_point:
  assumes "i < j" and "j < length ts - 1"
  shows "concordant (butlast ts) (i, j) = concordant ts (i, j)"
proof -
  have a: "butlast ts ! i = ts ! i" and b: "butlast ts ! j = ts ! j"
    using assms by (simp_all add: nth_butlast)
  show ?thesis by (simp only: concordant_def prod.case a b)
qed

lemma discordant_butlast_point:
  assumes "i < j" and "j < length ts - 1"
  shows "discordant (butlast ts) (i, j) = discordant ts (i, j)"
proof -
  have a: "butlast ts ! i = ts ! i" and b: "butlast ts ! j = ts ! j"
    using assms by (simp_all add: nth_butlast)
  show ?thesis by (simp only: discordant_def prod.case a b)
qed

lemma concordant_butlast:
  "filter (concordant (butlast ts)) (all_pairs (length ts - 1))
     = filter (concordant ts) (all_pairs (length ts - 1))"
proof (rule filter_cong [OF refl])
  fix p assume p: "p \<in> set (all_pairs (length ts - 1))"
  obtain i j where ij: "p = (i, j)" by (cases p)
  with p have "i < j \<and> j < length ts - 1" by (simp add: all_pairs_bound)
  then show "concordant (butlast ts) p = concordant ts p"
    by (simp add: ij concordant_butlast_point)
qed

lemma discordant_butlast:
  "filter (discordant (butlast ts)) (all_pairs (length ts - 1))
     = filter (discordant ts) (all_pairs (length ts - 1))"
proof (rule filter_cong [OF refl])
  fix p assume p: "p \<in> set (all_pairs (length ts - 1))"
  obtain i j where ij: "p = (i, j)" by (cases p)
  with p have "i < j \<and> j < length ts - 1" by (simp add: all_pairs_bound)
  then show "discordant (butlast ts) p = discordant ts p"
    by (simp add: ij discordant_butlast_point)
qed

lemma spec_S_butlast:
  "spec_S (butlast ts) = int (length (filter (concordant ts) (all_pairs (length ts - 1))))
                       - int (length (filter (discordant ts) (all_pairs (length ts - 1))))"
  unfolding spec_S_def length_butlast concordant_butlast discordant_butlast by (rule refl)

lemma mann_kendall_stat_all_but_last:
  "mann_kendall_stat imageCollection =
     (let ts = take 50 imageCollection in
      if filter (both_valid ts) (all_pairs (length ts - 1)) = [] then None
      else Some (real_of_int (spec_S (butlast ts))))"
  by (simp add: mann_kendall_stat_def Let_def mk_loop_pairs_all_pairs collection_sum_lt
        collection_sum_gt img_subtract_def spec_S_butlast)

lemma img_lt_mono: "strict_mono f \<Longrightarrow> img_lt (map_option f a) (map_option f b) = img_lt a b"
  by (cases a; cases b) (simp_all add: img_lt_def strict_mono_less)

lemma img_gt_mono: "strict_mono f \<Longrightarrow> img_gt (map_option f a) (map_option f b) = img_gt a b"
  by (cases a; cases b) (simp_all add: img_gt_def strict_mono_less)

lemma nth_relabel:
  assumes "i < j" and "j < length ts - 1"
  shows "map (map_option f) ts ! i = map_option f (ts ! i)"
    and "map (map_option f) ts ! j = map_option f (ts ! j)"
  using assms by simp_all

lemma mann_kendall_stat_relabel:
  assumes "strict_mono f"
  shows "mann_kendall_stat (map (map_option f) imageCollection) = mann_kendall_stat imageCollection"
proof -
  let ?ts = "take 50 imageCollection"
  let ?n = "length ?ts"
  have lt: "map (\<lambda>(k, l). img_lt (map (map_option f) ?ts ! k) (map (map_option f) ?ts ! l))
                (mk_loop_pairs ?n)
          = map (\<lambda>(k, l). img_lt (?ts ! k) (?ts ! l)) (mk_loop_pairs ?n)"
  proof (rule map_cong [OF refl])
    fix p assume p: "p \<in> set (mk_loop_pairs ?n)"
    obtain i j where ij: "p = (i, j)" by (cases p)
    with p have b: "i < j" "j < ?n - 1"
      using all_pairs_bound [of i j "?n - 1"] by (simp_all add: mk_loop_pairs_all_pairs)
    show "(case p of (k, l) \<Rightarrow> img_lt (map (map_option f) ?ts ! k) (map (map_option f) ?ts ! l))
        = (case p of (k, l) \<Rightarrow> img_lt (?ts ! k) (?ts ! l))"
      unfolding ij prod.case nth_relabel [OF b] by (rule img_lt_mono [OF assms])
  qed
  have gt: "map (\<lambda>(k, l). img_gt (map (map_option f) ?ts ! k) (map (map_option f) ?ts ! l))
                (mk_loop_pairs ?n)
          = map (\<lambda>(k, l). img_gt (?ts ! k) (?ts ! l)) (mk_loop_pairs ?n)"
  proof (rule map_cong [OF refl])
    fix p assume p: "p \<in> set (mk_loop_pairs ?n)"
    obtain i j where ij: "p = (i, j)" by (cases p)
    with p have b: "i < j" "j < ?n - 1"
      using all_pairs_bound [of i j "?n - 1"] by (simp_all add: mk_loop_pairs_all_pairs)
    show "(case p of (k, l) \<Rightarrow> img_gt (map (map_option f) ?ts ! k) (map (map_option f) ?ts ! l))
        = (case p of (k, l) \<Rightarrow> img_gt (?ts ! k) (?ts ! l))"
      unfolding ij prod.case nth_relabel [OF b] by (rule img_gt_mono [OF assms])
  qed
  show ?thesis
    unfolding mann_kendall_stat_def Let_def take_map length_map lt gt by (rule refl)
qed

text \<open>
  C7: for a quality flag among -1, 0, 1, 2, 3 the filtered pixel carries the NDVI value when
  the flag is 0 or 1 and is masked when the flag is -1, 2 or 3.
\<close>

theorem qa_filter_valid:
  assumes "SummaryQA img = Some q" and "q \<in> {- 1, 0, 1, 2, 3}"
  shows "qa_filter img = (if q = 0 \<or> q = 1 then NDVI img else None)"
  using assms
  by (cases "NDVI img")
     (auto simp add: qa_filter_def img_where_def img_eq_def img_updateMask_def)

theorem qa_filter_valid_witness:
  "qa_filter \<lparr>time_start = (2003, 1, 1), SummaryQA = Some 1, NDVI = Some 5000\<rparr> = Some 5000
   \<and> qa_filter \<lparr>time_start = (2003, 1, 17), SummaryQA = Some 3, NDVI = Some 5000\<rparr> = None"
  using qa_filter_valid [of "\<lparr>time_start = (2003, 1, 1), SummaryQA = Some 1, NDVI = Some 5000\<rparr>" 1]
    qa_filter_valid [of "\<lparr>time_start = (2003, 1, 17), SummaryQA = Some 3, NDVI = Some 5000\<rparr>" 3]
  by simp

lemma qa_filter_masked_flag: "SummaryQA img = None \<Longrightarrow> qa_filter img = None"
  by (cases "NDVI img") (simp_all add: qa_filter_def img_where_def img_updateMask_def)

text \<open>
  C10: when the GeoJSON object has a \<open>features\<close> list, the coordinates and the type are
  those of the geometry of its first feature, and the region is built from these two: the
  results are written out from the first feature alone, so the other features and the other
  keys of the object have no influence.
\<close>

theorem first_feature_geometry_used:
  "get_coords (g\<lparr>features := Some (f # fs)\<rparr>)
     = (case f_geometry f of None \<Rightarrow> Inl AttributeError | Some gm \<Rightarrow> Inr (g_coordinates gm))
   \<and> get_type (g\<lparr>features := Some (f # fs)\<rparr>)
     = (case f_geometry f of None \<Rightarrow> Inl AttributeError | Some gm \<Rightarrow> Inr (g_type gm))
   \<and> get_region (g\<lparr>features := Some (f # fs)\<rparr>)
     = (case f_geometry f of
          None \<Rightarrow> Inl AttributeError
        | Some gm \<Rightarrow>
            (case g_type gm of
               None \<Rightarrow> Inl AttributeError
             | Some ptype \<Rightarrow>
                 (case g_coordinates gm of
                    None \<Rightarrow> Inl KeyError
                  | Some c \<Rightarrow>
                      if lower ptype = ''multipolygon'' then Inr (MultiPolygon c)
                      else Inr (Polygon c))))"
  by (simp add: get_coords_def get_type_def get_region_def split: option.splits)

theorem first_feature_geometry_used_witness:
  "get_coords
     \<lparr>features = Some [\<lparr>f_geometry = Some \<lparr>g_coordinates = Some (1::nat),
                                             g_type = Some ''MultiPolygon''\<rparr>\<rparr>,
                        \<lparr>f_geometry = Some \<lparr>g_coordinates = Some 2,
                                             g_type = Some ''Polygon''\<rparr>\<rparr>],
      geometry = Some \<lparr>g_coordinates = Some 3, g_type = Some ''Point''\<rparr>,
      coordinates = Some 4, type_key = Some ''FeatureCollection''\<rparr> = Inr (Some 1)
   \<and> get_type
     \<lparr>features = Some [\<lparr>f_geometry = Some \<lparr>g_coordinates = Some (1::nat),
                                             g_type = Some ''MultiPolygon''\<rparr>\<rparr>,
                        \<lparr>f_geometry = Some \<lparr>g_coordinates = Some 2,
                                             g_type = Some ''Polygon''\<rparr>\<rparr>],
      geometry = Some \<lparr>g_coordinates = Some 3, g_type = Some ''Point''\<rparr>,
      coordinates = Some 4, type_key = Some ''FeatureCollection''\<rparr> = Inr (Some ''MultiPolygon'')
   \<and> get_region
     \<lparr>features = Some [\<lparr>f_geometry = Some \<lparr>g_coordinates = Some (1::nat),
                                             g_type = Some ''MultiPolygon''\<rparr>\<rparr>,
                        \<lparr>f_geometry = Some \<lparr>g_coordinates = Some 2,
                                             g_type = Some ''Polygon''\<rparr>\<rparr>],
      geometry = Some \<lparr>g_coordinates = Some 3, g_type = Some ''Point''\<rparr>,
      coordinates = Some 4, type_key = Some ''FeatureCollection''\<rparr> = Inr (MultiPolygon 1)"
proof -
  have l: "lower ''MultiPolygon'' = ''multipolygon''" by code_simp
  show ?thesis
    using first_feature_geometry_used
      [where g = "\<lparr>features = None,
             geometry = Some \<lparr>g_coordinates = Some 3, g_type = Some ''Point''\<rparr>,
             coordinates = Some 4, type_key = Some ''FeatureCollection''\<rparr>"
         and f = "\<lparr>f_geometry = Some \<lparr>g_coordinates = Some (1::nat),
                                       g_type = Some ''MultiPolygon''\<rparr>\<rparr>"
         and fs = "[\<lparr>f_geometry = Some \<lparr>g_coordinates = Some 2,
                                         g_type = Some ''Polygon''\<rparr>\<rparr>]"]
    by (simp add: l)
qed

text \<open>The region of the export is what \<open>get_coords\<close> returns.\<close>

lemma restrend_pointwise_region:
  "restrend_pointwise year_start year_end geojson modis_16d_o clim_15d_o = Inr e
     \<Longrightarrow> get_coords geojson = Inr (export_region e)"
  unfolding restrend_pointwise_def Let_def by (auto split: sum.splits)

text \<open>An empty list of features has no first feature: indexing it raises.\<close>

lemma get_coords_no_feature: "get_coords (g\<lparr>features := Some []\<rparr>) = Inl IndexError"
  by (simp add: get_coords_def)

text \<open>
  Towards C8: a year of the loop selects exactly one image of \<open>coll_1yr_o\<close> and of the
  predicted collection, and the median of one image is that image.
\<close>

lemma valid_values_single: "valid_values [p] = (case p of None \<Rightarrow> [] | Some v \<Rightarrow> [v])"
  by (simp add: valid_values_def)

lemma collection_median_single: "collection_median [p] = p"
  by (cases p) (simp_all add: collection_median_def valid_values_single)

lemma filter_eq_upto: "filter (\<lambda>k. k = y) [a..b] = (if a \<le> y \<and> y \<le> b then [y] else [])"
proof (induction a b rule: upto.induct)
  case (1 i j)
  show ?case
  proof (cases "i \<le> j")
    case True
    then have "[i..j] = i # [i + 1..j]" by (simp add: upto_rec1)
    with 1 True show ?thesis by auto
  next
    case False
    then show ?thesis by simp
  qed
qed

lemma filter_year_stack:
  "filter (\<lambda>i. year i = y) (stack n c ys ye) =
     (if ys \<le> y \<and> y < ye
      then [\<lparr>year = y,
             ndvi = collection_median (map snd (filter (\<lambda>i. fst i = y) n)),
             clim = collection_median (map snd (filter (\<lambda>i. fst i = y) c))\<rparr>]
      else [])"
  by (auto simp add: stack_def filter_map comp_def filter_eq_upto)

lemma iterate_ndvi_clim_p:
  "foldl (\<lambda>acc img. ndvi_clim_p lf img acc) acc xs =
     acc @ map (\<lambda>img. (fst img, img_add (offset lf) (img_multiply (scale lf) (snd img)))) xs"
  by (induction xs arbitrary: acc) (simp_all add: ndvi_clim_p_def)

lemma ndvi_1yr_p_of_map:
  "ndvi_1yr_p_of coll =
     map (\<lambda>i. (year i, img_add (offset (lf_clim_ndvi_of coll))
                          (img_multiply (scale (lf_clim_ndvi_of coll)) (clim i)))) coll"
  by (simp add: ndvi_1yr_p_of_def iterate_def iterate_ndvi_clim_p comp_def)

lemma filter_year_predicted:
  "filter (\<lambda>i. fst i = y) (ndvi_1yr_p_of coll) =
     map (\<lambda>i. (year i, img_add (offset (lf_clim_ndvi_of coll))
                          (img_multiply (scale (lf_clim_ndvi_of coll)) (clim i))))
         (filter (\<lambda>i. year i = y) coll)"
  by (simp add: ndvi_1yr_p_of_map filter_map comp_def)


text \<open>
  The sample run, stage by stage. A climate image whose 24 bands of a year share a value
  resamples to that value.
\<close>

lemma valid_values_replicate: "valid_values (replicate n (Some v)) = replicate n v"
  by (induction n) (simp_all add: valid_values_def)

lemma collection_mean_replicate: "0 < n \<Longrightarrow> collection_mean (replicate n (Some v)) = Some v"
  by (simp add: collection_mean_def valid_values_replicate sum_list_replicate)

lemma drop_concat_replicate:
  "drop (n * m) (concat (map (\<lambda>v. replicate m (f v)) vs))
     = concat (map (\<lambda>v. replicate m (f v)) (drop n vs))"
proof (induction vs arbitrary: n)
  case Nil
  show ?case by simp
next
  case (Cons v vs)
  show ?case
  proof (cases n)
    case 0
    then show ?thesis by simp
  next
    case (Suc k)
    then show ?thesis using Cons [of k] by simp
  qed
qed

lemma take_window:
  assumes "n < length vs"
  shows "take m (drop (n * m) (concat (map (\<lambda>v. replicate m (f v)) vs))) = replicate m (f (vs ! n))"
proof -
  have "drop n vs = vs ! n # drop (Suc n) vs"
    using assms by (simp add: Cons_nth_drop_Suc)
  then show ?thesis by (simp add: drop_concat_replicate)
qed

lemma length_concat_replicate:
  "length (concat (map (\<lambda>v. replicate m (f v)) vs)) = m * length vs"
  by (induction vs) simp_all

lemma int_15d_1yr_clim_constant_years:
  assumes "length vs = 33"
  shows "int_15d_1yr_clim (concat (map (\<lambda>v. replicate 24 (Some v)) vs))
           = Inr (map (\<lambda>k. (1981 + int k, Some (vs ! (k - 1)))) [1 ..< 34])"
proof -
  have len: "length (concat (map (\<lambda>v. replicate 24 (Some v)) vs)) = 792"
    using assms by (simp add: length_concat_replicate)
  have win: "collection_mean (take 24 (drop ((k - 1) * 24)
                 (concat (map (\<lambda>v. replicate 24 (Some v)) vs)))) = Some (vs ! (k - 1))"
    if "k \<in> set [1 ..< 34]" for k
  proof -
    from that assms have "k - 1 < length vs" by auto
    then show ?thesis by (simp add: take_window collection_mean_replicate)
  qed
  show ?thesis
    unfolding int_15d_1yr_clim_def using len win by (simp cong: map_cong)
qed

lemma divide_concat_replicate:
  "map (\<lambda>b. img_divide b (Some d)) (concat (map (\<lambda>v. replicate m (Some v)) vs))
     = concat (map (\<lambda>v. replicate m (Some v)) (map (\<lambda>v. v / d) vs))"
  by (simp add: map_concat comp_def img_divide_def)
text \<open>A run that passes the four places where it can fail exports the masked slope.\<close>

lemma restrend_pointwise_Inr:
  assumes "get_coords geojson = Inr region"
    and "int_15d_1yr_clim (map (\<lambda>b. img_divide b (Some 10000)) clim_15d_o) = Inr clim_1yr_o"
    and "kendall year_start year_end = Inr kendall_value"
    and "int_16d_1yr_o year_start year_end (map_qa_filter modis_16d_o) = Inr ndvi_1yr_o"
    and "stack ndvi_1yr_o clim_1yr_o year_start year_end = coll_1yr_o"
  shows "restrend_pointwise year_start year_end geojson modis_16d_o clim_15d_o =
           Inr \<lparr>export_img =
                  export_image
                    (scale (linearFit (ndvi_clim_r_coll coll_1yr_o (ndvi_1yr_p_of coll_1yr_o)
                                         year_start year_end)))
                    (mann_kendall_stat (map snd ndvi_1yr_o)) kendall_value,
                export_region = region\<rparr>"
  unfolding restrend_pointwise_def Let_def using assms by simp

lemma sample_ndvi_1yr_o:
  "int_16d_1yr_o 2003 2012 (map_qa_filter sample_modis) = Inr sample_ndvi_1yr"
  by code_simp

lemma sample_clim_resampled:
  "int_15d_1yr_clim (map (\<lambda>b. img_divide b (Some 10000)) (constant_years sample_clim_years))
     = Inr sample_clim_1yr_o"
proof -
  have l: "length (map (\<lambda>v. v / 10000) sample_clim_years) = 33"
    by (simp add: sample_clim_years_def)
  have u: "[1 ..< 34] = [1, 2, 3, 4, 5, 6, 7, 8, 9, 10, 11, 12, 13, 14, 15, 16, 17, 18, 19, 20,
             21, 22, 23, 24, 25, 26, 27, 28, 29, 30, 31, 32, 33::nat]"
    by code_simp
  show ?thesis
    unfolding constant_years_def divide_concat_replicate
      int_15d_1yr_clim_constant_years [OF l] u
    by (simp add: sample_clim_years_def sample_clim_1yr_o_def)
qed


lemma sample_stack: "stack sample_ndvi_1yr sample_clim_1yr_o 2003 2012 = sample_coll_1yr_o"
  by code_simp

lemma sample_lf_clim_ndvi:
  "lf_clim_ndvi_of sample_coll_1yr_o = \<lparr>scale = Some (17/140), offset = Some (11/280)\<rparr>"
  unfolding lf_clim_ndvi_of_def by code_simp

lemma sample_predicted: "ndvi_1yr_p_of sample_coll_1yr_o = sample_ndvi_1yr_p"
  unfolding ndvi_1yr_p_of_map sample_lf_clim_ndvi
  unfolding sample_coll_1yr_o_def sample_ndvi_1yr_p_def
  by (simp add: img_add_def img_multiply_def)

lemma sample_residuals:
  "ndvi_clim_r_coll sample_coll_1yr_o sample_ndvi_1yr_p 2003 2012 = sample_ndvi_1yr_r"
  by code_simp

lemma sample_lf_prest: "scale (linearFit sample_ndvi_1yr_r) = Some (199/7770)"
  by code_simp

lemma sample_slope:
  "scale (linearFit (ndvi_clim_r_coll sample_coll_1yr_o (ndvi_1yr_p_of sample_coll_1yr_o) 2003 2012))
     = Some (199/7770)"
  by (simp only: sample_predicted sample_residuals sample_lf_prest)

lemma sample_mk_trend: "mann_kendall_stat (map snd sample_ndvi_1yr) = Some 21"
  by code_simp

lemma sample_kendall: "kendall 2003 2012 = Inr 19"
  by (simp add: kendall_def period_def array_get_def coefficients_def)

lemma sample_export: "export_image (Some (199/7770)) (Some 21) 19 = Some (199/7770)"
  by (simp add: export_image_def img_unmask_def img_where_def img_lte_def img_abs_def)

lemma sample_get_coords: "get_coords sample_geojson = Inr (Some 0)"
  by (simp add: get_coords_def sample_geojson_def)

text \<open>
  C2, as stated, fails at a pixel that is invalid in an upstream stage while its slope is
  defined. In the sample run every observation of 2005 is rejected by the quality filter,
  so the annual composite of 2005 is masked at the pixel; the reducers skip it, the
  Mann-Kendall statistic of the vegetation stack is 21, above the critical value 19 of
  period 10, and the exported value is the slope 199/7770, not the sentinel.
\<close>

theorem export_after_masked_year_counterexample:
  "int_16d_1yr_o 2003 2012 (map_qa_filter sample_modis) = Inr sample_ndvi_1yr
   \<and> sample_ndvi_1yr ! 2 = (2005, None)
   \<and> restrend_pointwise 2003 2012 sample_geojson sample_modis (constant_years sample_clim_years)
       = Inr \<lparr>export_img = Some (199/7770), export_region = Some 0\<rparr>"
proof -
  have "restrend_pointwise 2003 2012 sample_geojson sample_modis (constant_years sample_clim_years)
          = Inr \<lparr>export_img = Some (199/7770), export_region = Some 0\<rparr>"
    using restrend_pointwise_Inr [OF sample_get_coords sample_clim_resampled sample_kendall
        sample_ndvi_1yr_o sample_stack]
    by (simp add: sample_slope sample_mk_trend sample_export)
  then show ?thesis by (simp add: sample_ndvi_1yr_o sample_ndvi_1yr_def)
qed

text \<open>
  C2, amended: the exported layer is the residual-trend slope, replaced by the sentinel
  -99999 where the Mann-Kendall statistic of the vegetation stack is defined and at most the
  critical value in absolute value, where the absolute slope is at most 1e-6, and where the
  slope itself is masked; everywhere else it is the slope.
\<close>

theorem export_image_cases:
  "export_image lf_prest_scale mk_trend kendall_value =
     Some (case lf_prest_scale of
             None \<Rightarrow> - 99999
           | Some v \<Rightarrow>
               if (case mk_trend of None \<Rightarrow> False | Some m \<Rightarrow> \<bar>m\<bar> \<le> real_of_int kendall_value)
                  \<or> \<bar>v\<bar> \<le> 0.000001
               then - 99999 else v)"
  by (auto simp add: export_image_def img_unmask_def img_where_def img_lte_def img_abs_def
           split: option.splits)

theorem export_image_cases_witness:
  "export_image (Some (1/100)) (Some 30) 26 = Some (1/100)
   \<and> export_image (Some (1/100)) (Some (- 26)) 26 = Some (- 99999)
   \<and> export_image (Some (1/1000000)) (Some 30) 26 = Some (- 99999)
   \<and> export_image None (Some 30) 26 = Some (- 99999)"
  using export_image_cases [of "Some (1/100)" "Some 30" 26]
    export_image_cases [of "Some (1/100)" "Some (- 26)" 26]
    export_image_cases [of "Some (1/1000000)" "Some 30" 26]
    export_image_cases [of None "Some 30" 26]
  by simp

lemma length_ndvi_clim_r_coll:
  "length (ndvi_clim_r_coll coll_1yr_o ndvi_1yr_p year_start year_end)
     = nat (year_end - year_start)"
  by (simp add: ndvi_clim_r_coll_def)

text \<open>
  C4 (the code departs from the claim): \<open>ndvi_clim_r_coll\<close> loops over
  \<open>range(year_start, year_end)\<close>, which leaves \<open>year_end\<close> out. For 2003 and 2015 the residual
  series has the 12 layers of 2003 to 2014, while \<open>period\<close> is 13.
\<close>

theorem residual_layers_2003_2015:
  "map fst (ndvi_clim_r_coll coll_1yr_o ndvi_1yr_p 2003 2015)
     = map (\<lambda>y. Some (real_of_int y)) [2003, 2004, 2005, 2006, 2007, 2008, 2009, 2010, 2011, 2012, 2013, 2014]
   \<and> length (ndvi_clim_r_coll coll_1yr_o ndvi_1yr_p 2003 2015) = 12
   \<and> period 2003 2015 = 13"
proof -
  have u: "[2003 .. 2015 - 1] = [2003, 2004, 2005, 2006, 2007, 2008, 2009, 2010, 2011, 2012, 2013, 2014::int]"
    by code_simp
  show ?thesis
    by (simp add: ndvi_clim_r_coll_def ndvi_clim_r_img_def period_def u comp_def)
qed

text \<open>
  Towards C6: the loop of \<open>int_16d_1yr_o\<close> fails as soon as one of its years selects no
  image, and otherwise returns one composite for each of its years.
\<close>

lemma reduce_mean_cases:
  "reduce_mean selected = Inl e \<Longrightarrow> e = InsufficientDataError \<and> selected = []"
  by (simp add: reduce_mean_def split: if_splits)

lemma int_16d_1yr_o_loop_fails:
  assumes "k \<in> set ks" and "filterDate (k, 1, 1) (k, 12, 31) ndvi_coll = []"
  shows "int_16d_1yr_o_loop ndvi_coll ks img_coll = Inl InsufficientDataError"
  using assms(1)
proof (induction ks arbitrary: img_coll)
  case Nil
  then show ?case by simp
next
  case (Cons j ks)
  show ?case
  proof (cases "reduce_mean (map snd (filterDate (j, 1, 1) (j, 12, 31) ndvi_coll))")
    case (Inl e)
    then show ?thesis using reduce_mean_cases [OF Inl] by simp
  next
    case (Inr m)
    have "j \<noteq> k"
    proof
      assume "j = k"
      with Inr assms(2) show False by (simp add: reduce_mean_def)
    qed
    with Cons.prems have "k \<in> set ks" by simp
    then show ?thesis using Inr Cons.IH by (simp add: Let_def)
  qed
qed

lemma int_16d_1yr_o_loop_covered:
  assumes "\<And>k. k \<in> set ks \<Longrightarrow> filterDate (k, 1, 1) (k, 12, 31) ndvi_coll \<noteq> []"
  shows "int_16d_1yr_o_loop ndvi_coll ks img_coll =
           Inr (img_coll @ map (\<lambda>k. (k, img_multiply
                   (collection_mean (map snd (filterDate (k, 1, 1) (k, 12, 31) ndvi_coll)))
                   (Some 0.0001))) ks)"
  using assms
proof (induction ks arbitrary: img_coll)
  case Nil
  then show ?case by simp
next
  case (Cons j ks)
  have "filterDate (j, 1, 1) (j, 12, 31) ndvi_coll \<noteq> []" using Cons.prems by simp
  then have r: "reduce_mean (map snd (filterDate (j, 1, 1) (j, 12, 31) ndvi_coll))
           = Inr (collection_mean (map snd (filterDate (j, 1, 1) (j, 12, 31) ndvi_coll)))"
    by (simp add: reduce_mean_def)
  have ih: "int_16d_1yr_o_loop ndvi_coll ks acc =
           Inr (acc @ map (\<lambda>k. (k, img_multiply
                   (collection_mean (map snd (filterDate (k, 1, 1) (k, 12, 31) ndvi_coll)))
                   (Some 0.0001))) ks)" for acc
    by (rule Cons.IH) (rule Cons.prems, rule list.set_intros(2))
  show ?case unfolding int_16d_1yr_o_loop.simps r sum.case Let_def ih by simp
qed

lemma restrend_pointwise_resampling_fails:
  assumes "int_16d_1yr_o year_start year_end (map_qa_filter modis_16d_o) = Inl e"
  shows "restrend_pointwise year_start year_end geojson modis_16d_o clim_15d_o =
           (case get_coords geojson of Inl e' \<Rightarrow> Inl e' | Inr region \<Rightarrow> Inl e)"
  unfolding restrend_pointwise_def Let_def using assms by (simp split: sum.splits)

lemma int_16d_1yr_o_covered:
  assumes "\<And>k. year_start \<le> k \<Longrightarrow> k < year_end
              \<Longrightarrow> filterDate (k, 1, 1) (k, 12, 31) ndvi_coll \<noteq> []"
  shows "int_16d_1yr_o year_start year_end ndvi_coll =
           Inr (map (\<lambda>k. (k, img_multiply
                   (collection_mean (map snd (filterDate (k, 1, 1) (k, 12, 31) ndvi_coll)))
                   (Some 0.0001))) [year_start .. year_end - 1])"
proof -
  have "int_16d_1yr_o_loop ndvi_coll [year_start .. year_end - 1] [] =
          Inr ([] @ map (\<lambda>k. (k, img_multiply
                   (collection_mean (map snd (filterDate (k, 1, 1) (k, 12, 31) ndvi_coll)))
                   (Some 0.0001))) [year_start .. year_end - 1])"
    by (rule int_16d_1yr_o_loop_covered) (rule assms, simp_all)
  then show ?thesis by (simp add: int_16d_1yr_o_def)
qed

text \<open>
  C6: annual resampling fails with \<open>InsufficientDataError\<close> whenever a year of its loop,
  \<open>year_start \<le> k < year_end\<close>, has zero contributing source layers, and the failure is
  fatal: the run returns that failure and no export (unless the area of interest had
  already failed). The failure of the reduction over no image is the spec's.
\<close>

theorem empty_year_fails:
  assumes "year_start \<le> k" and "k < year_end"
    and "filterDate (k, 1, 1) (k, 12, 31) (map_qa_filter modis_16d_o) = []"
  shows "int_16d_1yr_o year_start year_end (map_qa_filter modis_16d_o) = Inl InsufficientDataError
       \<and> restrend_pointwise year_start year_end geojson modis_16d_o clim_15d_o =
           (case get_coords geojson of Inl e \<Rightarrow> Inl e | Inr region \<Rightarrow> Inl InsufficientDataError)"
proof -
  have "k \<in> set [year_start .. year_end - 1]" using assms(1,2) by simp
  then have f: "int_16d_1yr_o year_start year_end (map_qa_filter modis_16d_o)
                  = Inl InsufficientDataError"
    unfolding int_16d_1yr_o_def using assms(3) by (rule int_16d_1yr_o_loop_fails)
  show ?thesis using f restrend_pointwise_resampling_fails [OF f] by simp
qed

theorem empty_year_fails_witness:
  "int_16d_1yr_o 2003 2012 (map_qa_filter sample_modis_gap) = Inl InsufficientDataError
   \<and> restrend_pointwise 2003 2012 sample_geojson sample_modis_gap
         (constant_years sample_clim_years) = Inl InsufficientDataError"
proof -
  have a: "(2003::int) \<le> 2005" and b: "(2005::int) < 2012" by simp_all
  have e: "filterDate (2005, 1, 1) (2005, 12, 31) (map_qa_filter sample_modis_gap) = []"
    by (simp add: filterDate_def map_qa_filter_def sample_modis_gap_def)
  have g: "get_coords sample_geojson = Inr (Some 0)"
    by (simp add: get_coords_def sample_geojson_def)
  show ?thesis
    using empty_year_fails [OF a b e, of sample_geojson "constant_years sample_clim_years"]
    by (simp add: g)
qed

text \<open>
  C8: for every year \<open>y\<close> of the loop, \<open>year_start \<le> y < year_end\<close>, the predicted collection
  has exactly one image for \<open>y\<close>, whose value is \<open>offset + scale * climate[y]\<close> with the one
  regression fitted over all the years, and the residual image of \<open>y\<close> is the observed value
  of \<open>y\<close> minus that predicted value.
\<close>

theorem residual_observed_minus_predicted:
  fixes ndvi_1yr_o clim_1yr_o :: "annual_img list" and year_start year_end y :: int
  assumes "year_start \<le> y" and "y < year_end"
  defines "coll_1yr_o \<equiv> stack ndvi_1yr_o clim_1yr_o year_start year_end"
  defines "lf_clim_ndvi \<equiv> lf_clim_ndvi_of coll_1yr_o"
  defines "observed \<equiv> collection_median (map snd (filter (\<lambda>i. fst i = y) ndvi_1yr_o))"
  defines "climate \<equiv> collection_median (map snd (filter (\<lambda>i. fst i = y) clim_1yr_o))"
  defines "predicted \<equiv> img_add (offset lf_clim_ndvi) (img_multiply (scale lf_clim_ndvi) climate)"
  shows "filter (\<lambda>i. fst i = y) (ndvi_1yr_p_of coll_1yr_o) = [(y, predicted)]
       \<and> ndvi_clim_r_img coll_1yr_o (ndvi_1yr_p_of coll_1yr_o) y
           = (Some (real_of_int y), img_subtract observed predicted)"
proof -
  have f: "filter (\<lambda>i. year i = y) coll_1yr_o = [\<lparr>year = y, ndvi = observed, clim = climate\<rparr>]"
    using assms(1,2) by (simp add: coll_1yr_o_def observed_def climate_def filter_year_stack)
  have p: "filter (\<lambda>i. fst i = y) (ndvi_1yr_p_of coll_1yr_o) = [(y, predicted)]"
    by (simp add: filter_year_predicted f predicted_def lf_clim_ndvi_def)
  have r: "ndvi_clim_r_img coll_1yr_o (ndvi_1yr_p_of coll_1yr_o) y
           = (Some (real_of_int y), img_subtract observed predicted)"
    by (simp add: ndvi_clim_r_img_def f p collection_median_single)
  from p r show ?thesis by simp
qed

theorem residual_observed_minus_predicted_witness:
  "(2003::int) \<le> 2004 \<and> (2004::int) < 2006
   \<and> ndvi_clim_r_img
        (stack [(2003, Some (2/10)), (2004, Some (4/10)), (2005, Some (5/10))]
               [(2003, Some 1), (2004, Some 2), (2005, Some 4)] 2003 2006)
        (ndvi_1yr_p_of
           (stack [(2003, Some (2/10)), (2004, Some (4/10)), (2005, Some (5/10))]
                  [(2003, Some 1), (2004, Some 2), (2005, Some 4)] 2003 2006))
        2004
      = (Some 2004, Some (9/140))"
proof -
  have a: "(2003::int) \<le> 2004" and b: "(2004::int) < 2006" by simp_all
  have v: "img_subtract
      (collection_median (map snd (filter (\<lambda>i. fst i = 2004)
          [(2003::int, Some (2/10)), (2004, Some (4/10)), (2005, Some (5/10))])))
      (img_add
        (offset (lf_clim_ndvi_of
            (stack [(2003, Some (2/10)), (2004, Some (4/10)), (2005, Some (5/10))]
                   [(2003, Some 1), (2004, Some 2), (2005, Some 4)] 2003 2006)))
        (img_multiply
          (scale (lf_clim_ndvi_of
            (stack [(2003, Some (2/10)), (2004, Some (4/10)), (2005, Some (5/10))]
                   [(2003, Some 1), (2004, Some 2), (2005, Some 4)] 2003 2006)))
          (collection_median (map snd (filter (\<lambda>i. fst i = 2004)
              [(2003::int, Some 1), (2004, Some 2), (2005, Some 4)])))))
     = Some (9/140)"
    by code_simp
  show ?thesis
    using residual_observed_minus_predicted [OF a b,
        of "[(2003, Some (2/10)), (2004, Some (4/10)), (2005, Some (5/10))]"
           "[(2003, Some 1), (2004, Some 2), (2005, Some 4)]"] v
    by simp
qed

text \<open>
  C9: removing the computation of \<open>mk_prest\<close> changes nothing: the function without it
  returns the same result on every input.
\<close>

theorem mk_prest_unused:
  "restrend_pointwise_without_mk_prest year_start year_end geojson modis_16d_o clim_15d_o
     = restrend_pointwise year_start year_end geojson modis_16d_o clim_15d_o"
  unfolding restrend_pointwise_def restrend_pointwise_without_mk_prest_def Let_def
  by (rule refl)

end
